theory Spec2Isabelle
  imports Complex_Main "HOL-Library.Sublist"
begin

section \<open>Jeonse risk check: features, fallback score, risk factors, insurance limit\<close>

text \<open>
  The development embeds four Python modules of the FastAPI backend:
  \<^item> \<^verbatim>\<open>app/services/price_service.py\<close>: \<^verbatim>\<open>calculate_hug_eligibility\<close>;
  \<^item> \<^verbatim>\<open>app/services/feature_service.py\<close>: \<^verbatim>\<open>calculate_risk_features\<close>, the
    calculator of the training pipeline (constants prefixed \<open>fs_\<close>);
  \<^item> \<^verbatim>\<open>app/services/risk_calculator.py\<close>: \<^verbatim>\<open>calculate_risk_features\<close>, the
    calculator of the serving path (constants prefixed \<open>rc_\<close>), and
    \<^verbatim>\<open>predict_with_model\<close>, \<^verbatim>\<open>_rule_based_prediction\<close>,
    \<^verbatim>\<open>determine_risk_level\<close>, \<^verbatim>\<open>analyze_risk_factors\<close>.

  Python numbers (\<^verbatim>\<open>int\<close>, \<^verbatim>\<open>float\<close>, \<^verbatim>\<open>bool\<close>) are read as real numbers:
  rounding, infinities and NaN of the floating-point format are not represented. A number
  used as a condition is true when it is not zero. A Python \<^verbatim>\<open>str\<close> is the list of its
  Unicode code points, so that \<^verbatim>\<open>in\<close>, \<^verbatim>\<open>strip\<close> and \<^verbatim>\<open>replace\<close> see the characters
  that Python sees; dictionary keys, which are ASCII, are HOL strings.
\<close>

subsection \<open>Python values\<close>

datatype py_error = ZeroDivisionError | KeyError

type_synonym ustring = "nat list"

text \<open>\<^verbatim>\<open>bool(x)\<close> of a number.\<close>

definition truthy :: "real \<Rightarrow> bool" where
  "truthy x = (x \<noteq> 0)"

text \<open>\<^verbatim>\<open>a / b\<close>: true division raises on a zero divisor.\<close>

definition py_div :: "real \<Rightarrow> real \<Rightarrow> py_error + real" where
  "py_div a b = (if b = 0 then Inl ZeroDivisionError else Inr (a / b))"

text \<open>\<^verbatim>\<open>sub in s\<close> on strings: \<open>sub\<close> occurs in \<open>s\<close> as a contiguous run.\<close>

definition str_in :: "ustring \<Rightarrow> ustring \<Rightarrow> bool" where
  "str_in sub s = sublist sub s"

text \<open>
  The code points for which \<^verbatim>\<open>str.isspace\<close> holds; \<^verbatim>\<open>s.strip()\<close> removes them from
  both ends, \<^verbatim>\<open>s.strip(cs)\<close> removes the characters of \<open>cs\<close>, and
  \<^verbatim>\<open>s.replace(a, b)\<close> with one-character \<open>a\<close> and \<open>b\<close> maps each character.
\<close>

definition is_space :: "nat \<Rightarrow> bool" where
  "is_space c = List.member
     [9, 10, 11, 12, 13, 28, 29, 30, 31, 32, 133, 160, 5760, 8192, 8193, 8194, 8195, 8196,
      8197, 8198, 8199, 8200, 8201, 8202, 8232, 8233, 8239, 8287, 12288] c"

definition strip_where :: "(nat \<Rightarrow> bool) \<Rightarrow> ustring \<Rightarrow> ustring" where
  "strip_where P s = rev (dropWhile P (rev (dropWhile P s)))"

definition str_strip :: "ustring \<Rightarrow> ustring" where
  "str_strip s = strip_where is_space s"

definition str_strip_chars :: "ustring \<Rightarrow> ustring \<Rightarrow> ustring" where
  "str_strip_chars cs s = strip_where (List.member cs) s"

definition str_replace_char :: "nat \<Rightarrow> nat \<Rightarrow> ustring \<Rightarrow> ustring" where
  "str_replace_char a b s = map (\<lambda>c. if c = a then b else c) s"

text \<open>\<^verbatim>\<open>np.clip(x, lo, hi)\<close> on a scalar.\<close>

definition np_clip :: "real \<Rightarrow> real \<Rightarrow> real \<Rightarrow> real" where
  "np_clip x lo hi = min hi (max x lo)"

text \<open>
  The keywords of the building-use label, as code points:
  apartment (U+C544 U+D30C U+D2B8), officetel (U+C624 U+D53C U+C2A4 U+D154),
  multi-household (U+B2E4 U+C138 U+B300), row house (U+C5F0 U+B9BD),
  villa (U+BE4C U+B77C), neighbourhood facility (U+ADFC U+B9B0), trust (U+C2E0 U+D0C1).
\<close>

definition kw_apartment :: ustring where "kw_apartment = [50500, 54028, 53944]"
definition kw_officetel :: ustring where "kw_officetel = [50724, 54588, 49828, 53588]"
definition kw_multi_household :: ustring where "kw_multi_household = [45796, 49464, 45824]"
definition kw_row_house :: ustring where "kw_row_house = [50672, 47549]"
definition kw_villa :: ustring where "kw_villa = [48716, 46972]"
definition kw_neighbourhood :: ustring where "kw_neighbourhood = [44540, 47536]"
definition kw_trust :: ustring where "kw_trust = [49888, 53441]"

subsection \<open>Dates\<close>

text \<open>
  \<^verbatim>\<open>datetime.now()\<close> and \<^verbatim>\<open>pd.to_datetime\<close> are library code, supplied by an
  environment. Points in time are real numbers counted in days, so that
  \<^verbatim>\<open>(datetime.now() - t).days\<close> is the floor of the difference.

  \<^item> \<open>to_datetime_coerce s\<close> is \<^verbatim>\<open>pd.to_datetime(s, errors='coerce')\<close>: a timestamp,
    the null value NaT for text that is no date, or \<open>Raises\<close> when the call, or the
    subtraction of its result from \<^verbatim>\<open>datetime.now()\<close>, raises.
  \<^item> \<open>to_datetime s\<close> is \<^verbatim>\<open>pd.to_datetime(s)\<close> for the blocks of risk\_calculator.py
    that read \<^verbatim>\<open>.days\<close> of the difference at once: \<open>Some t\<close> for a timestamp,
    \<open>None\<close> when the parse or the subtraction raises. (Where pandas returns NaT without
    raising, \<^verbatim>\<open>.days\<close> is a NaN, which the real numbers do not have; the type of this
    parameter has no such result.)
\<close>

datatype parsed = Raises | NaT | Timestamp real

record env =
  now :: real
  to_datetime :: "ustring \<Rightarrow> real option"
  to_datetime_coerce :: "ustring \<Rightarrow> parsed"

definition days_since :: "env \<Rightarrow> real \<Rightarrow> int" where
  "days_since e t = \<lfloor>now e - t\<rfloor>"

subsection \<open>The feature dictionary\<close>

type_synonym features = "string \<rightharpoonup> real"

text \<open>\<^verbatim>\<open>features.get(k, d)\<close>.\<close>

definition features_get :: "features \<Rightarrow> string \<Rightarrow> real \<Rightarrow> real" where
  "features_get f k d = (case f k of None \<Rightarrow> d | Some v \<Rightarrow> v)"

subsection \<open>The calculator of the training pipeline (feature\_service.py)\<close>

text \<open>Lines 48-53: the weight of the building type.\<close>

definition fs_type_w :: "ustring \<Rightarrow> real" where
  "fs_type_w main_use_str =
     (if str_in kw_neighbourhood main_use_str then 0.4
      else if list_ex (\<lambda>x. str_in x main_use_str)
                [kw_multi_household, kw_row_house, kw_officetel, kw_villa] then 0.1
      else 0.0)"

text \<open>
  Lines 63-67: the date text with the blanks around it removed, full stops (46) and
  slashes (47) turned into hyphens (45), and the hyphens at both ends removed.
\<close>

definition fs_clean_date :: "ustring \<Rightarrow> ustring" where
  "fs_clean_date usage_approval_date =
     (let raw_date = str_strip usage_approval_date;
          clean_date = str_strip_chars [45]
            (str_replace_char 47 45 (str_replace_char 46 45 raw_date))
      in clean_date)"

text \<open>
  Lines 59-78: the age of the building. The date is \<open>None\<close> for Python's \<^verbatim>\<open>None\<close>;
  \<^verbatim>\<open>None\<close> and the empty string are false as a condition, and the age then stays at
  its initial value 0.
\<close>

definition fs_building_age :: "env \<Rightarrow> ustring option \<Rightarrow> real" where
  "fs_building_age e usage_approval_date =
     (case usage_approval_date of
        None \<Rightarrow> 0
      | Some d \<Rightarrow>
          if d = [] then 0
          else
            (case to_datetime_coerce e (fs_clean_date d) of
               Timestamp dt \<Rightarrow> real_of_int (days_since e dt) / 365.25
             | NaT \<Rightarrow> 10
             | Raises \<Rightarrow> 10))"

text \<open>Lines 81-90: the one-hot encoding of the building type.\<close>

definition fs_type_dict :: "ustring \<Rightarrow> features" where
  "fs_type_dict main_use_str =
     (let type_dict = [''type_APT'' \<mapsto> 0, ''type_OFFICETEL'' \<mapsto> 0,
                       ''type_VILLA'' \<mapsto> 0, ''type_ETC'' \<mapsto> 0]
      in if str_in kw_apartment main_use_str then type_dict(''type_APT'' \<mapsto> 1)
         else if str_in kw_officetel main_use_str then type_dict(''type_OFFICETEL'' \<mapsto> 1)
         else if list_ex (\<lambda>x. str_in x main_use_str)
                   [kw_multi_household, kw_row_house, kw_villa]
           then type_dict(''type_VILLA'' \<mapsto> 1)
         else type_dict(''type_ETC'' \<mapsto> 1))"

text \<open>
  \<^verbatim>\<open>calculate_risk_features\<close> of feature\_service.py. The two divisions by the market
  price (lines 36 and 39) are unguarded: they raise when the price in use is zero.
\<close>

definition fs_calculate_risk_features ::
  "env \<Rightarrow> real \<Rightarrow> real \<Rightarrow> real \<Rightarrow> ustring \<Rightarrow> ustring option \<Rightarrow> real \<Rightarrow> real \<Rightarrow> real
     \<Rightarrow> real \<Rightarrow> real \<Rightarrow> py_error + features" where
  "fs_calculate_risk_features e deposit_amount market_price0 real_debt main_use
       usage_approval_date is_illegal is_trust_owner short_term_weight
       parking_count household_count =
     (let market_price =
            (if market_price0 \<le> 0 then deposit_amount * 1.25 else market_price0)
      in case py_div deposit_amount market_price of
           Inl err \<Rightarrow> Inl err
         | Inr jeonse_ratio \<Rightarrow>
      (case py_div (deposit_amount + real_debt) market_price of
           Inl err \<Rightarrow> Inl err
         | Inr total_risk_ratio \<Rightarrow>
      (let est_public_price = market_price * 0.7;
           hug_limit = est_public_price * 1.26;
           hug_risk_ratio = (if hug_limit > 0 then deposit_amount / hug_limit else 0);
           type_w = fs_type_w main_use;
           risk_score_val =
             np_clip (type_w + short_term_weight + (if truthy is_trust_owner then 0.5 else 0))
               0 1.0;
           building_age = fs_building_age e usage_approval_date;
           type_dict = fs_type_dict main_use;
           parking_per_household =
             (if household_count > 0 then parking_count / household_count else 0);
           is_micro_complex = (if household_count < 100 then 1 else 0);
           features =
             [''jeonse_ratio'' \<mapsto> jeonse_ratio,
              ''hug_risk_ratio'' \<mapsto> hug_risk_ratio,
              ''total_risk_ratio'' \<mapsto> total_risk_ratio,
              ''estimated_loan_ratio'' \<mapsto> risk_score_val,
              ''building_age'' \<mapsto> building_age,
              ''is_illegal'' \<mapsto> is_illegal,
              ''parking_per_household'' \<mapsto> parking_per_household,
              ''is_micro_complex'' \<mapsto> is_micro_complex,
              ''is_trust_owner'' \<mapsto> is_trust_owner,
              ''short_term_weight'' \<mapsto> short_term_weight]
       in Inr (features ++ type_dict))))"

subsection \<open>The calculator of the serving path (risk\_calculator.py)\<close>

text \<open>
  \<^verbatim>\<open>building_info\<close> is a row of the buildings table: a key may be missing and a value
  may be \<^verbatim>\<open>None\<close>. \<^verbatim>\<open>ocr_features\<close> is what \<^verbatim>\<open>extract_ocr_features\<close> returns:
  numbers and strings under the keys that are present (\<open>None\<close> is a missing key; for
  \<^verbatim>\<open>usage_approval_date\<close>, which is read with \<^verbatim>\<open>.get(k)\<close>, also the value
  \<^verbatim>\<open>None\<close>).
\<close>

datatype 'a entry = Absent | Null | Val 'a

record building_info =
  owner_name :: "ustring entry"
  ownership_changed_date :: "ustring entry"
  bi_main_use :: "ustring entry"
  use_apr_day :: "ustring entry"
  household_cnt :: "real entry"
  parking_cnt :: "real entry"
  is_violating_building :: "ustring entry"

record ocr_features =
  real_debt_manwon :: "real option"
  ocr_is_trust_owner :: "real option"
  ocr_short_term_weight :: "real option"
  ocr_main_use :: "ustring option"
  ocr_usage_approval_date :: "ustring option"
  ocr_is_illegal :: "real option"

text \<open>\<^verbatim>\<open>d.get(k)\<close>: a missing key reads as \<^verbatim>\<open>None\<close>.\<close>

definition entry_get :: "'a entry \<Rightarrow> 'a option" where
  "entry_get x = (case x of Val v \<Rightarrow> Some v | _ \<Rightarrow> None)"

text \<open>\<^verbatim>\<open>str(d.get(k, ''))\<close>: \<^verbatim>\<open>str(None)\<close> is the text \<^verbatim>\<open>None\<close>.\<close>

definition entry_str :: "ustring entry \<Rightarrow> ustring" where
  "entry_str x = (case x of Absent \<Rightarrow> [] | Null \<Rightarrow> [78, 111, 110, 101] | Val s \<Rightarrow> s)"

text \<open>\<^verbatim>\<open>d.get(k, 0)\<close> on \<^verbatim>\<open>ocr_features\<close>.\<close>

definition num_or_zero :: "real option \<Rightarrow> real" where
  "num_or_zero x = (case x of None \<Rightarrow> 0 | Some v \<Rightarrow> v)"

text \<open>A string or \<^verbatim>\<open>None\<close> as a condition, and \<^verbatim>\<open>a or b\<close> on such values.\<close>

definition str_truthy :: "ustring option \<Rightarrow> bool" where
  "str_truthy x = (case x of None \<Rightarrow> False | Some s \<Rightarrow> s \<noteq> [])"

definition str_or :: "ustring option \<Rightarrow> ustring option \<Rightarrow> ustring option" where
  "str_or a b = (if str_truthy a then a else b)"

text \<open>Lines 93-94: the trust flag.\<close>

definition rc_is_trust :: "building_info \<Rightarrow> ocr_features \<Rightarrow> real" where
  "rc_is_trust building_info ocr_features =
     (let owner_name = entry_str (owner_name building_info);
          v = num_or_zero (ocr_is_trust_owner ocr_features)
      in if truthy v then v else (if str_in kw_trust owner_name then 1 else 0))"

text \<open>Lines 97-108: the short-term ownership weight.\<close>

definition rc_short_term_weight :: "env \<Rightarrow> building_info \<Rightarrow> ocr_features \<Rightarrow> real" where
  "rc_short_term_weight e building_info ocr_features =
     (let short_term_weight = num_or_zero (ocr_short_term_weight ocr_features)
      in case entry_get (ownership_changed_date building_info) of
           None \<Rightarrow> short_term_weight
         | Some d \<Rightarrow>
             if short_term_weight = 0 \<and> d \<noteq> [] then
               (case to_datetime e d of
                  None \<Rightarrow> short_term_weight
                | Some own_date \<Rightarrow>
                    (let days_diff = days_since e own_date
                     in if days_diff < 90 then 0.3
                        else if days_diff < 730 then 0.1
                        else short_term_weight))
             else short_term_weight)"

text \<open>Line 111: the building-use label; lines 112-117: its weight.\<close>

definition rc_main_use :: "building_info \<Rightarrow> ocr_features \<Rightarrow> ustring" where
  "rc_main_use building_info ocr_features =
     (let from_ocr = (case ocr_main_use ocr_features of None \<Rightarrow> [] | Some s \<Rightarrow> s)
      in case bi_main_use building_info of
           Val s \<Rightarrow> if s \<noteq> [] then s else from_ocr
         | _ \<Rightarrow> from_ocr)"

definition rc_type_weight :: "ustring \<Rightarrow> real" where
  "rc_type_weight main_use =
     (if str_in kw_neighbourhood main_use then 0.4
      else if list_ex (\<lambda>t. str_in t main_use)
                [kw_multi_household, kw_officetel, kw_row_house] then 0.1
      else 0.0)"

text \<open>Lines 123-131: the age of the building, 10 unless a date is given and parses.\<close>

definition rc_building_age :: "env \<Rightarrow> building_info \<Rightarrow> ocr_features \<Rightarrow> real" where
  "rc_building_age e building_info ocr_features =
     (let use_apr_day = str_or (entry_get (use_apr_day building_info))
                               (ocr_usage_approval_date ocr_features)
      in case use_apr_day of
           None \<Rightarrow> 10
         | Some d \<Rightarrow>
             if d \<noteq> [] then
               (case to_datetime e d of
                  None \<Rightarrow> 10
                | Some apr_date \<Rightarrow> real_of_int (days_since e apr_date) / 365.25)
             else 10)"

text \<open>Lines 134-136: the number of households, at least 1.\<close>

definition rc_household_cnt :: "building_info \<Rightarrow> real" where
  "rc_household_cnt building_info =
     (let household_cnt =
            (case entry_get (household_cnt building_info) of
               None \<Rightarrow> 1
             | Some n \<Rightarrow> if truthy n then n else 1)
      in if household_cnt < 1 then 1 else household_cnt)"

text \<open>Lines 140-142: the illegal-building flag.\<close>

definition rc_is_illegal :: "building_info \<Rightarrow> ocr_features \<Rightarrow> real" where
  "rc_is_illegal building_info ocr_features =
     (let v = num_or_zero (ocr_is_illegal ocr_features)
      in if truthy v then v
         else (if str_strip (entry_str (is_violating_building building_info)) = [89]
               then 1 else 0))"

text \<open>Lines 145-154: the one-hot encoding of the building type.\<close>

definition rc_type_dict :: "ustring \<Rightarrow> features" where
  "rc_type_dict main_use =
     (let type_dict = [''type_APT'' \<mapsto> 0, ''type_OFFICETEL'' \<mapsto> 0,
                       ''type_VILLA'' \<mapsto> 0, ''type_ETC'' \<mapsto> 0]
      in if str_in kw_apartment main_use then type_dict(''type_APT'' \<mapsto> 1)
         else if str_in kw_officetel main_use then type_dict(''type_OFFICETEL'' \<mapsto> 1)
         else if str_in kw_multi_household main_use \<or> str_in kw_row_house main_use
           then type_dict(''type_VILLA'' \<mapsto> 1)
         else type_dict(''type_ETC'' \<mapsto> 1))"

text \<open>
  \<^verbatim>\<open>calculate_risk_features\<close> of risk\_calculator.py. A dictionary that is not given
  (\<^verbatim>\<open>None\<close>) is the empty one, \<open>no_building_info\<close> and \<open>no_ocr_features\<close> below.
  Every division is guarded, so the function returns for every input.
\<close>

definition rc_calculate_risk_features ::
  "env \<Rightarrow> real \<Rightarrow> real \<Rightarrow> real \<Rightarrow> building_info \<Rightarrow> ocr_features \<Rightarrow> features" where
  "rc_calculate_risk_features e deposit_manwon market_price_manwon public_price_won
       building_info ocr_features =
     (let jeonse_ratio =
            (if market_price_manwon > 0 then deposit_manwon / market_price_manwon else 0);
          hug_limit =
            (if public_price_won > 0 then public_price_won * 1.26 / 10000
             else market_price_manwon);
          hug_risk_ratio = (if hug_limit > 0 then deposit_manwon / hug_limit else 0);
          real_debt = num_or_zero (real_debt_manwon ocr_features);
          total_risk_ratio =
            (if market_price_manwon > 0
             then (deposit_manwon + real_debt) / market_price_manwon else 0);
          is_trust = rc_is_trust building_info ocr_features;
          short_term_weight = rc_short_term_weight e building_info ocr_features;
          main_use = rc_main_use building_info ocr_features;
          type_weight = rc_type_weight main_use;
          risk_score_val =
            np_clip (type_weight + short_term_weight + (if truthy is_trust then 0.5 else 0))
              0 1.0;
          building_age = rc_building_age e building_info ocr_features;
          household_cnt = rc_household_cnt building_info;
          parking_per_household =
            (case entry_get (parking_cnt building_info) of
               None \<Rightarrow> 0
             | Some n \<Rightarrow> n) / household_cnt;
          is_micro_complex = (if household_cnt < 100 then 1 else 0);
          is_illegal = rc_is_illegal building_info ocr_features;
          type_dict = rc_type_dict main_use
      in [''jeonse_ratio'' \<mapsto> jeonse_ratio,
          ''hug_risk_ratio'' \<mapsto> hug_risk_ratio,
          ''total_risk_ratio'' \<mapsto> total_risk_ratio,
          ''estimated_loan_ratio'' \<mapsto> risk_score_val,
          ''building_age'' \<mapsto> building_age,
          ''is_illegal'' \<mapsto> is_illegal,
          ''parking_per_household'' \<mapsto> parking_per_household,
          ''is_micro_complex'' \<mapsto> is_micro_complex,
          ''is_trust_owner'' \<mapsto> is_trust,
          ''short_term_weight'' \<mapsto> short_term_weight,
          ''real_debt'' \<mapsto> real_debt] ++ type_dict)"

definition no_building_info :: building_info where
  "no_building_info =
     \<lparr>owner_name = Absent, ownership_changed_date = Absent, bi_main_use = Absent,
      use_apr_day = Absent, household_cnt = Absent, parking_cnt = Absent,
      is_violating_building = Absent\<rparr>"

definition no_ocr_features :: ocr_features where
  "no_ocr_features =
     \<lparr>real_debt_manwon = None, ocr_is_trust_owner = None, ocr_short_term_weight = None,
      ocr_main_use = None, ocr_usage_approval_date = None, ocr_is_illegal = None\<rparr>"

subsection \<open>Scoring (risk\_calculator.py)\<close>

text \<open>
  \<^verbatim>\<open>_rule_based_prediction\<close>: each rule raises \<open>prob\<close> to its floor with \<^verbatim>\<open>max\<close>.
\<close>

definition rule_based_prediction :: "features \<Rightarrow> real" where
  "rule_based_prediction features =
     (let prob = 0.0;
          prob = (if features_get features ''jeonse_ratio'' 0 \<ge> 0.8 then max prob 0.8
                  else if features_get features ''jeonse_ratio'' 0 \<ge> 0.7 then max prob 0.5
                  else prob);
          prob = (if features_get features ''total_risk_ratio'' 0 \<ge> 0.9 then max prob 0.9
                  else if features_get features ''total_risk_ratio'' 0 \<ge> 0.8 then max prob 0.7
                  else prob);
          prob = (if truthy (features_get features ''is_trust_owner'' 0)
                     \<and> features_get features ''short_term_weight'' 0 > 0
                  then max prob 0.6 else prob)
      in prob)"

text \<open>
  \<^verbatim>\<open>predict_with_model\<close>. The classifier is an artefact outside the repository:
  \<open>None\<close> when \<^verbatim>\<open>get_model()\<close> finds none, otherwise a function that gives the
  probability of the positive class or raises (\<open>None\<close>), in which case the rules answer.
\<close>

definition predict_with_model :: "(features \<Rightarrow> real option) option \<Rightarrow> features \<Rightarrow> real" where
  "predict_with_model model features =
     (case model of
        None \<Rightarrow> rule_based_prediction features
      | Some predict_proba \<Rightarrow>
          (case predict_proba features of
             Some prob \<Rightarrow> prob
           | None \<Rightarrow> rule_based_prediction features))"

definition determine_risk_level :: "real \<Rightarrow> string" where
  "determine_risk_level prob =
     (if prob < 0.4 then ''SAFE''
      else if prob < 0.7 then ''CAUTION''
      else ''RISKY'')"

subsection \<open>Risk factors (risk\_calculator.py)\<close>

text \<open>
  The message of a factor is one of nine templates; a template with a number in it
  carries the number that the format string prints (the ratio times 100, the debt, the age).
\<close>

datatype message =
    Msg_hug_ineligible
  | Msg_ltv_very_high real
  | Msg_ltv_rather_high real
  | Msg_senior_debt real
  | Msg_illegal_building
  | Msg_trust_property
  | Msg_short_ownership
  | Msg_old_building real
  | Msg_nothing_found

record risk_factor =
  factor_type :: string
  severity :: string
  message :: message

text \<open>
  \<^verbatim>\<open>analyze_risk_factors\<close> appends to the list \<^verbatim>\<open>risk_factors\<close> in seven numbered
  blocks and a closing one; each block is a function from the list so far to the list
  after it.
\<close>

text \<open>Block 1 (lines 275-280): no insurance.\<close>

definition add_hug_ineligible :: "bool \<Rightarrow> risk_factor list \<Rightarrow> risk_factor list" where
  "add_hug_ineligible is_hug_safe risk_factors =
     (if \<not> is_hug_safe
      then risk_factors @ [\<lparr>factor_type = ''HUG_INELIGIBLE'', severity = ''CRITICAL'',
                            message = Msg_hug_ineligible\<rparr>]
      else risk_factors)"

text \<open>Block 2 (lines 283-295): a high deposit-to-price ratio.\<close>

definition add_high_ltv :: "features \<Rightarrow> risk_factor list \<Rightarrow> risk_factor list" where
  "add_high_ltv features risk_factors =
     (let jeonse_ratio = features_get features ''jeonse_ratio'' 0
      in if jeonse_ratio > 0.8
         then risk_factors @ [\<lparr>factor_type = ''HIGH_LTV'', severity = ''HIGH'',
                               message = Msg_ltv_very_high (jeonse_ratio * 100)\<rparr>]
         else if jeonse_ratio > 0.7
         then risk_factors @ [\<lparr>factor_type = ''HIGH_LTV'', severity = ''MEDIUM'',
                               message = Msg_ltv_rather_high (jeonse_ratio * 100)\<rparr>]
         else risk_factors)"

text \<open>Block 3 (lines 298-304): senior debt.\<close>

definition add_senior_debt :: "features \<Rightarrow> risk_factor list \<Rightarrow> risk_factor list" where
  "add_senior_debt features risk_factors =
     (let real_debt = features_get features ''real_debt'' 0
      in if real_debt > 0
         then risk_factors @ [\<lparr>factor_type = ''SENIOR_DEBT'', severity = ''HIGH'',
                               message = Msg_senior_debt real_debt\<rparr>]
         else risk_factors)"

text \<open>Block 4 (lines 307-312): an illegal building.\<close>

definition add_illegal_building :: "features \<Rightarrow> risk_factor list \<Rightarrow> risk_factor list" where
  "add_illegal_building features risk_factors =
     (if truthy (features_get features ''is_illegal'' 0)
      then risk_factors @ [\<lparr>factor_type = ''ILLEGAL_BUILDING'', severity = ''HIGH'',
                            message = Msg_illegal_building\<rparr>]
      else risk_factors)"

text \<open>Block 5 (lines 315-320): a trust as owner.\<close>

definition add_trust_property :: "features \<Rightarrow> risk_factor list \<Rightarrow> risk_factor list" where
  "add_trust_property features risk_factors =
     (if truthy (features_get features ''is_trust_owner'' 0)
      then risk_factors @ [\<lparr>factor_type = ''TRUST_PROPERTY'', severity = ''MEDIUM'',
                            message = Msg_trust_property\<rparr>]
      else risk_factors)"

text \<open>
  Block 6 (lines 323-329): short ownership. Line 324 reads
  \<^verbatim>\<open>features['short_term_weight']\<close> by index, which raises on a missing key.
\<close>

definition add_short_ownership ::
  "features \<Rightarrow> risk_factor list \<Rightarrow> py_error + risk_factor list" where
  "add_short_ownership features risk_factors =
     (if features_get features ''short_term_weight'' 0 > 0
      then (case features ''short_term_weight'' of
              None \<Rightarrow> Inl KeyError
            | Some w \<Rightarrow>
                Inr (risk_factors @
                     [\<lparr>factor_type = ''SHORT_OWNERSHIP'',
                       severity = (if w \<ge> 0.3 then ''HIGH'' else ''MEDIUM''),
                       message = Msg_short_ownership\<rparr>]))
      else Inr risk_factors)"

text \<open>Block 7 (lines 332-338): an old building.\<close>

definition add_old_building :: "features \<Rightarrow> risk_factor list \<Rightarrow> risk_factor list" where
  "add_old_building features risk_factors =
     (let building_age = features_get features ''building_age'' 0
      in if building_age > 30
         then risk_factors @ [\<lparr>factor_type = ''OLD_BUILDING'', severity = ''LOW'',
                               message = Msg_old_building building_age\<rparr>]
         else risk_factors)"

text \<open>The closing block (lines 341-346): the factor that says nothing was found.\<close>

definition no_risk_found :: risk_factor where
  "no_risk_found =
     \<lparr>factor_type = ''NONE'', severity = ''LOW'', message = Msg_nothing_found\<rparr>"

definition add_none_found :: "risk_factor list \<Rightarrow> risk_factor list" where
  "add_none_found risk_factors =
     (if risk_factors = [] then risk_factors @ [no_risk_found] else risk_factors)"

definition analyze_risk_factors :: "features \<Rightarrow> bool \<Rightarrow> py_error + risk_factor list" where
  "analyze_risk_factors features is_hug_safe =
     (let risk_factors = [];
          risk_factors = add_hug_ineligible is_hug_safe risk_factors;
          risk_factors = add_high_ltv features risk_factors;
          risk_factors = add_senior_debt features risk_factors;
          risk_factors = add_illegal_building features risk_factors;
          risk_factors = add_trust_property features risk_factors
      in case add_short_ownership features risk_factors of
           Inl err \<Rightarrow> Inl err
         | Inr risk_factors \<Rightarrow>
             (let risk_factors = add_old_building features risk_factors;
                  risk_factors = add_none_found risk_factors
              in Inr risk_factors))"

subsection \<open>Insurance eligibility (price\_service.py)\<close>

text \<open>
  The three fixed message strings of \<^verbatim>\<open>calculate_hug_eligibility\<close>: no assessed price,
  eligible, not eligible.
\<close>

datatype hug_message = Msg_no_public_price | Msg_eligible | Msg_ineligible

text \<open>
  \<^verbatim>\<open>calculate_hug_eligibility(public_price, deposit_manwon)\<close>: the assessed price is in
  won, the deposit in units of 10000 won; the result is the triple
  (eligible, limit in 10000 won, message).
\<close>

definition calculate_hug_eligibility :: "real \<Rightarrow> real \<Rightarrow> bool \<times> real \<times> hug_message" where
  "calculate_hug_eligibility public_price deposit_manwon =
     (if public_price \<le> 0 then (False, 0, Msg_no_public_price)
      else
        let hug_limit_won = public_price * 1.26;
            hug_limit_manwon = hug_limit_won / 10000
        in if deposit_manwon \<le> hug_limit_manwon
           then (True, hug_limit_manwon, Msg_eligible)
           else (False, hug_limit_manwon, Msg_ineligible))"

subsection \<open>Reading results, and the inputs of the scenarios\<close>

text \<open>
  The value under a key of the dictionary that a call returned; \<open>None\<close> when the call
  raised or the key is missing.
\<close>

definition returned :: "py_error + features \<Rightarrow> string \<Rightarrow> real option" where
  "returned r k = (case r of Inl err \<Rightarrow> None | Inr f \<Rightarrow> f k)"

text \<open>
  The four type columns, in the order of \<^verbatim>\<open>USE_COLS\<close>, and what it means that exactly
  one of them is 1 and the other three are 0.
\<close>

definition type_columns :: "features \<Rightarrow> real option list" where
  "type_columns f = map f [''type_APT'', ''type_OFFICETEL'', ''type_VILLA'', ''type_ETC'']"

definition exactly_one_hot :: "features \<Rightarrow> bool" where
  "exactly_one_hot f =
     (type_columns f = [Some 1, Some 0, Some 0, Some 0]
      \<or> type_columns f = [Some 0, Some 1, Some 0, Some 0]
      \<or> type_columns f = [Some 0, Some 0, Some 1, Some 0]
      \<or> type_columns f = [Some 0, Some 0, Some 0, Some 1])"

text \<open>
  Following the spec's words for the fallback score: every triggered rule proposes a
  floor; the score is the maximum over the triggered rules, and 0.0 when none triggers.
\<close>

definition spec_triggered_floors :: "features \<Rightarrow> real list" where
  "spec_triggered_floors f =
     (if features_get f ''jeonse_ratio'' 0 \<ge> 0.8 then [0.8]
      else if features_get f ''jeonse_ratio'' 0 \<ge> 0.7 then [0.5] else [])
     @ (if features_get f ''total_risk_ratio'' 0 \<ge> 0.9 then [0.9]
        else if features_get f ''total_risk_ratio'' 0 \<ge> 0.8 then [0.7] else [])
     @ (if truthy (features_get f ''is_trust_owner'' 0)
           \<and> features_get f ''short_term_weight'' 0 > 0 then [0.6] else [])"

definition spec_fallback_probability :: "features \<Rightarrow> real" where
  "spec_fallback_probability f =
     (if spec_triggered_floors f = [] then 0.0 else Max (set (spec_triggered_floors f)))"

text \<open>
  Concrete inputs: an environment in which no text is a date; a building whose use is the
  villa keyword alone; OCR features that carry a senior debt of 6000; the feature values of
  the quiet scenario (ratio 0.5, age 5, no debt, no flags).
\<close>

definition plain_env :: env where
  "plain_env = \<lparr>now = 0, to_datetime = (\<lambda>s. None), to_datetime_coerce = (\<lambda>s. NaT)\<rparr>"

definition villa_building :: building_info where
  "villa_building = no_building_info\<lparr>bi_main_use := Val kw_villa\<rparr>"

definition debt_ocr_features :: ocr_features where
  "debt_ocr_features = no_ocr_features\<lparr>real_debt_manwon := Some 6000\<rparr>"

definition quiet_features :: features where
  "quiet_features =
     [''jeonse_ratio'' \<mapsto> 0.5, ''total_risk_ratio'' \<mapsto> 0.5, ''building_age'' \<mapsto> 5,
      ''is_illegal'' \<mapsto> 0, ''is_trust_owner'' \<mapsto> 0, ''short_term_weight'' \<mapsto> 0,
      ''real_debt'' \<mapsto> 0]"

section \<open>Auxiliary facts\<close>

lemmas kw_defs = kw_apartment_def kw_officetel_def kw_multi_household_def kw_row_house_def
  kw_villa_def kw_neighbourhood_def kw_trust_def

lemma str_in_simps:
  "str_in [] s = True"
  "str_in (x # xs) [] = False"
  "str_in (x # xs) (y # ys) = (prefix (x # xs) (y # ys) \<or> str_in (x # xs) ys)"
  by (simp_all add: str_in_def sublist_Cons_right)

lemma np_clip_unit: "0 \<le> np_clip x 0 1 \<and> np_clip x 0 1 \<le> 1"
  by (simp add: np_clip_def)

subsection \<open>The type columns sit on top of the other keys\<close>

lemma fs_type_dict_other:
  "k \<notin> {''type_APT'', ''type_OFFICETEL'', ''type_VILLA'', ''type_ETC''}
   \<Longrightarrow> fs_type_dict m k = None"
  by (simp add: fs_type_dict_def Let_def)

lemma rc_type_dict_other:
  "k \<notin> {''type_APT'', ''type_OFFICETEL'', ''type_VILLA'', ''type_ETC''}
   \<Longrightarrow> rc_type_dict m k = None"
  by (simp add: rc_type_dict_def Let_def)

lemma fs_type_dict_one_hot: "exactly_one_hot (g ++ fs_type_dict m)"
  by (simp add: exactly_one_hot_def type_columns_def fs_type_dict_def Let_def map_add_def)

lemma rc_type_dict_one_hot: "exactly_one_hot (g ++ rc_type_dict m)"
  by (simp add: exactly_one_hot_def type_columns_def rc_type_dict_def Let_def map_add_def)

subsection \<open>When the training calculator returns, and what it returns\<close>

lemma fs_returns:
  "market_price0 > 0 \<or> deposit_amount \<noteq> 0 \<Longrightarrow>
   \<exists>f. fs_calculate_risk_features e deposit_amount market_price0 real_debt main_use
          usage_approval_date is_illegal is_trust_owner short_term_weight
          parking_count household_count = Inr f"
  by (auto simp: fs_calculate_risk_features_def py_div_def Let_def)

lemma fs_raises:
  "m \<le> 0 \<Longrightarrow>
   fs_calculate_risk_features e 0 m debt mu date ill trust stw pk hh = Inl ZeroDivisionError"
  by (simp add: fs_calculate_risk_features_def py_div_def Let_def)

lemma fs_result:
  "fs_calculate_risk_features e d m debt mu date ill trust stw pk hh = Inr f \<Longrightarrow>
   \<exists>g. f = g ++ fs_type_dict mu"
  by (auto simp: fs_calculate_risk_features_def py_div_def Let_def split: if_splits)

lemma fs_loan:
  "fs_calculate_risk_features e d m debt mu date ill trust stw pk hh = Inr f \<Longrightarrow>
   \<exists>v. f ''estimated_loan_ratio'' = Some v \<and> 0 \<le> v \<and> v \<le> 1"
  by (auto simp: fs_calculate_risk_features_def py_div_def Let_def map_add_def
        fs_type_dict_other np_clip_unit split: if_splits)

lemma fs_hug:
  "0 < m \<Longrightarrow>
   returned (fs_calculate_risk_features e d m debt mu date ill trust stw pk hh)
     ''hug_risk_ratio'' = Some (d / (m * 0.7 * 1.26))"
  by (simp add: returned_def fs_calculate_risk_features_def py_div_def Let_def map_add_def
        fs_type_dict_other)

lemma fs_subst:
  "m \<le> 0 \<Longrightarrow>
   fs_calculate_risk_features e d m debt mu date ill trust stw pk hh
   = fs_calculate_risk_features e d (d * 1.25) debt mu date ill trust stw pk hh"
  unfolding fs_calculate_risk_features_def by (simp only: if_True if_cancel)

lemma fs_subst_ratio:
  "m \<le> 0 \<Longrightarrow> d \<noteq> 0 \<Longrightarrow>
   returned (fs_calculate_risk_features e d m debt mu date ill trust stw pk hh)
     ''jeonse_ratio'' = Some 0.8
   \<and> returned (fs_calculate_risk_features e d m debt mu date ill trust stw pk hh)
       ''total_risk_ratio'' = Some ((d + debt) / (d * 1.25))"
  by (simp add: returned_def fs_calculate_risk_features_def py_div_def Let_def map_add_def
        fs_type_dict_other)

subsection \<open>What the serving calculator returns\<close>

lemma rc_jeonse:
  "rc_calculate_risk_features e d m p bi ocr ''jeonse_ratio''
   = Some (if m > 0 then d / m else 0)"
  by (simp add: rc_calculate_risk_features_def Let_def map_add_def rc_type_dict_other)

lemma rc_total:
  "rc_calculate_risk_features e d m p bi ocr ''total_risk_ratio''
   = Some (if m > 0 then (d + num_or_zero (real_debt_manwon ocr)) / m else 0)"
  by (simp add: rc_calculate_risk_features_def Let_def map_add_def rc_type_dict_other)

lemma rc_hug:
  "rc_calculate_risk_features e d m p bi ocr ''hug_risk_ratio''
   = Some (if p > 0 then d / (p * 1.26 / 10000) else if m > 0 then d / m else 0)"
  by (simp add: rc_calculate_risk_features_def Let_def map_add_def rc_type_dict_other)

lemma rc_loan:
  "\<exists>v. rc_calculate_risk_features e d m p bi ocr ''estimated_loan_ratio'' = Some v
       \<and> 0 \<le> v \<and> v \<le> 1"
  by (simp add: rc_calculate_risk_features_def Let_def map_add_def rc_type_dict_other
        np_clip_unit)

lemma rc_main_use_villa: "rc_main_use villa_building no_ocr_features = kw_villa"
  by (simp add: rc_main_use_def villa_building_def no_building_info_def
        no_ocr_features_def kw_villa_def)

lemma rc_type_dict_villa:
  "rc_type_dict kw_villa ''type_VILLA'' = Some 0"
  "rc_type_dict kw_villa ''type_ETC'' = Some 1"
  by (simp_all add: rc_type_dict_def Let_def kw_defs str_in_simps)

lemma fs_type_dict_villa:
  "fs_type_dict kw_villa ''type_VILLA'' = Some 1"
  "fs_type_dict kw_villa ''type_ETC'' = Some 0"
  by (simp_all add: fs_type_dict_def Let_def kw_defs str_in_simps)

subsection \<open>Dates that are given and do not parse\<close>

text \<open>The example of the source's comment: 2001.5.3. becomes 2001-5-3.\<close>

lemma fs_clean_date_example:
  "fs_clean_date [50, 48, 48, 49, 46, 53, 46, 51, 46] = [50, 48, 48, 49, 45, 53, 45, 51]"
  by (simp add: fs_clean_date_def str_strip_def str_strip_chars_def strip_where_def
        str_replace_char_def is_space_def)

lemma fs_building_age_unparsed:
  "d \<noteq> [] \<Longrightarrow> to_datetime_coerce e (fs_clean_date d) \<in> {NaT, Raises}
   \<Longrightarrow> fs_building_age e (Some d) = 10"
  by (auto simp: fs_building_age_def)

lemma rc_building_age_unparsed:
  "str_or (entry_get (use_apr_day bi)) (ocr_usage_approval_date ocr) = Some d
   \<Longrightarrow> to_datetime e d = None
   \<Longrightarrow> rc_building_age e bi ocr = 10"
  by (simp add: rc_building_age_def)

subsection \<open>The villa keyword in the training calculator\<close>

lemma fs_type_dict_villa_keyword:
  "str_in kw_villa m \<Longrightarrow> \<not> str_in kw_apartment m \<Longrightarrow> \<not> str_in kw_officetel m
   \<Longrightarrow> fs_type_dict m ''type_VILLA'' = Some 1"
  by (simp add: fs_type_dict_def Let_def)

subsection \<open>The fallback score\<close>

lemma rule_based_is_max: "rule_based_prediction f = spec_fallback_probability f"
  by (cases "features_get f ''jeonse_ratio'' 0 \<ge> 0.8";
      cases "features_get f ''jeonse_ratio'' 0 \<ge> 0.7";
      cases "features_get f ''total_risk_ratio'' 0 \<ge> 0.9";
      cases "features_get f ''total_risk_ratio'' 0 \<ge> 0.8";
      cases "truthy (features_get f ''is_trust_owner'' 0)";
      cases "features_get f ''short_term_weight'' 0 > 0";
      simp add: rule_based_prediction_def spec_fallback_probability_def
        spec_triggered_floors_def Let_def)

lemma rc_get:
  "features_get (rc_calculate_risk_features e d m p bi ocr) ''jeonse_ratio'' 0
   = (if m > 0 then d / m else 0)"
  "features_get (rc_calculate_risk_features e d m p bi ocr) ''total_risk_ratio'' 0
   = (if m > 0 then (d + num_or_zero (real_debt_manwon ocr)) / m else 0)"
  by (simp_all add: features_get_def rc_jeonse rc_total)

lemma scenario_a_trust:
  "features_get
     (rc_calculate_risk_features e 24000 30000 0 no_building_info no_ocr_features)
     ''is_trust_owner'' 0 = 0"
  by (simp add: features_get_def rc_calculate_risk_features_def Let_def map_add_def
        rc_type_dict_other rc_is_trust_def no_building_info_def no_ocr_features_def
        num_or_zero_def truthy_def entry_str_def str_in_def kw_trust_def)

lemma scenario_a:
  "rule_based_prediction
     (rc_calculate_risk_features e 24000 30000 0 no_building_info no_ocr_features) = 0.8"
  by (simp add: rule_based_prediction_def Let_def rc_get scenario_a_trust
        no_ocr_features_def num_or_zero_def truthy_def)

subsection \<open>The risk factors\<close>

lemma add_none_found_nonempty: "add_none_found rs \<noteq> []"
  by (simp add: add_none_found_def)

lemma add_short_ownership_returns: "\<exists>rs'. add_short_ownership f rs = Inr rs'"
  by (cases "f ''short_term_weight''")
     (simp_all add: add_short_ownership_def features_get_def)

lemma analyze_returns:
  "\<exists>rs. analyze_risk_factors f hug = Inr rs \<and> rs \<noteq> []"
proof -
  obtain rs' where "add_short_ownership f
      (add_trust_property f (add_illegal_building f (add_senior_debt f
         (add_high_ltv f (add_hug_ineligible hug []))))) = Inr rs'"
    using add_short_ownership_returns by blast
  then show ?thesis
    by (simp add: analyze_risk_factors_def Let_def add_none_found_nonempty)
qed

lemma analyze_quiet:
  assumes "hug" "features_get f ''jeonse_ratio'' 0 \<le> 0.7"
    "features_get f ''real_debt'' 0 \<le> 0"
    "\<not> truthy (features_get f ''is_illegal'' 0)"
    "\<not> truthy (features_get f ''is_trust_owner'' 0)"
    "features_get f ''short_term_weight'' 0 \<le> 0"
    "features_get f ''building_age'' 0 \<le> 30"
  shows "analyze_risk_factors f hug = Inr [no_risk_found]"
  using assms
  by (simp add: analyze_risk_factors_def Let_def add_hug_ineligible_def add_high_ltv_def
        add_senior_debt_def add_illegal_building_def add_trust_property_def
        add_short_ownership_def add_old_building_def add_none_found_def)

section \<open>Checked properties\<close>

text \<open>
  C1. For a deposit of at least 0, a market price above 0 and a senior debt of at least 0,
  both calculators return, and the total risk ratio of the returned features is at least
  their jeonse ratio. (The senior debt is the argument \<open>real_debt\<close> of the training
  calculator and the entry \<^verbatim>\<open>real_debt_manwon\<close> of the serving one.)
\<close>

theorem C1_total_ratio_at_least_jeonse_ratio:
  assumes "0 \<le> deposit" "0 < market_price" "0 \<le> real_debt"
    "0 \<le> num_or_zero (real_debt_manwon ocr)"
  shows "(\<exists>f j t. fs_calculate_risk_features e deposit market_price real_debt main_use
              usage_approval_date is_illegal is_trust_owner short_term_weight
              parking_count household_count = Inr f
            \<and> f ''jeonse_ratio'' = Some j \<and> f ''total_risk_ratio'' = Some t \<and> j \<le> t)
       \<and> (\<exists>j t. rc_calculate_risk_features e deposit market_price public_price bi ocr
                   ''jeonse_ratio'' = Some j
            \<and> rc_calculate_risk_features e deposit market_price public_price bi ocr
                   ''total_risk_ratio'' = Some t \<and> j \<le> t)"
  using assms
  by (simp add: rc_jeonse rc_total fs_calculate_risk_features_def py_div_def Let_def
        map_add_def fs_type_dict_other divide_right_mono)

theorem C1_total_ratio_at_least_jeonse_ratio_witness:
  "(0::real) \<le> 24000 \<and> (0::real) < 30000 \<and> (0::real) \<le> 6000
   \<and> 0 \<le> num_or_zero (real_debt_manwon debt_ocr_features)
   \<and> (\<exists>f j t. fs_calculate_risk_features plain_env 24000 30000 6000 [] None 0 0 0 0 0
                  = Inr f
            \<and> f ''jeonse_ratio'' = Some j \<and> f ''total_risk_ratio'' = Some t \<and> j \<le> t)
   \<and> (\<exists>j t. rc_calculate_risk_features plain_env 24000 30000 0 no_building_info
                 debt_ocr_features ''jeonse_ratio'' = Some j
            \<and> rc_calculate_risk_features plain_env 24000 30000 0 no_building_info
                 debt_ocr_features ''total_risk_ratio'' = Some t \<and> j \<le> t)"
proof -
  have debt: "0 \<le> num_or_zero (real_debt_manwon debt_ocr_features)"
    by (simp add: debt_ocr_features_def no_ocr_features_def num_or_zero_def)
  show ?thesis
    using debt
      C1_total_ratio_at_least_jeonse_ratio [where deposit = 24000 and market_price = 30000
        and real_debt = 6000 and ocr = debt_ocr_features and e = plain_env
        and main_use = "[]" and usage_approval_date = None and is_illegal = 0
        and is_trust_owner = 0 and short_term_weight = 0 and parking_count = 0
        and household_count = 0 and public_price = 0 and bi = no_building_info]
    by simp
qed

text \<open>
  C2. In the features that either calculator returns, exactly one of
  \<^verbatim>\<open>type_APT\<close>, \<^verbatim>\<open>type_OFFICETEL\<close>, \<^verbatim>\<open>type_VILLA\<close>, \<^verbatim>\<open>type_ETC\<close> is 1 and the
  other three are 0.
\<close>

theorem C2_type_columns_one_hot:
  "exactly_one_hot (rc_calculate_risk_features e deposit market_price public_price bi ocr)
   \<and> (\<forall>f. fs_calculate_risk_features e deposit market_price real_debt main_use
              usage_approval_date is_illegal is_trust_owner short_term_weight
              parking_count household_count = Inr f \<longrightarrow> exactly_one_hot f)"
proof
  show "exactly_one_hot
          (rc_calculate_risk_features e deposit market_price public_price bi ocr)"
    unfolding rc_calculate_risk_features_def Let_def by (rule rc_type_dict_one_hot)
next
  show "\<forall>f. fs_calculate_risk_features e deposit market_price real_debt main_use
              usage_approval_date is_illegal is_trust_owner short_term_weight
              parking_count household_count = Inr f \<longrightarrow> exactly_one_hot f"
    using fs_result fs_type_dict_one_hot by metis
qed

theorem C2_type_columns_one_hot_witness:
  "\<exists>f. fs_calculate_risk_features plain_env 24000 30000 0 kw_villa None 0 0 0 0 0 = Inr f
       \<and> exactly_one_hot f"
proof -
  obtain f where
    "fs_calculate_risk_features plain_env 24000 30000 0 kw_villa None 0 0 0 0 0 = Inr f"
    using fs_returns [of 30000 24000 plain_env 0 kw_villa None 0 0 0 0 0] by auto
  then show ?thesis
    using C2_type_columns_one_hot [of plain_env 24000 30000 0 no_building_info
        no_ocr_features 0 kw_villa None 0 0 0 0 0]
    by blast
qed

text \<open>
  C3 (the claim fails on the serving calculator). A building whose use is the villa
  keyword (U+BE4C U+B77C) alone, which contains none of the keywords of higher
  precedence: the serving calculator, whose third test names only multi-household and
  row house, sets \<^verbatim>\<open>type_VILLA\<close> to 0 and \<^verbatim>\<open>type_ETC\<close> to 1; the training calculator,
  whose third test names the villa keyword too, sets \<^verbatim>\<open>type_VILLA\<close> to 1 on the same
  text.
\<close>

theorem C3_villa_keyword_missed_by_serving_calculator:
  "rc_calculate_risk_features e 10000 30000 0 villa_building no_ocr_features
     ''type_VILLA'' = Some 0
   \<and> rc_calculate_risk_features e 10000 30000 0 villa_building no_ocr_features
       ''type_ETC'' = Some 1
   \<and> returned (fs_calculate_risk_features e 10000 30000 0 kw_villa None 0 0 0 0 0)
       ''type_VILLA'' = Some 1"
  by (simp add: rc_calculate_risk_features_def Let_def map_add_def rc_main_use_villa
        rc_type_dict_villa returned_def fs_calculate_risk_features_def py_div_def
        fs_type_dict_villa)

text \<open>
  C4 (as stated, refuted). The claim says that without an assessed price the ratio is
  deposit divided by market price. The training calculator takes no assessed price and
  divides by 0.7 times 1.26 times the market price: for deposit 8820 and market price
  10000 the ratio is 1, not 0.882. The serving calculator returns 0 when neither price is
  positive: for deposit 100 and market price -100 the ratio is 0, not -1.
\<close>

theorem C4_counterexample:
  "returned (fs_calculate_risk_features plain_env 8820 10000 0 [] None 0 0 0 0 0)
     ''hug_risk_ratio'' = Some 1
   \<and> returned (fs_calculate_risk_features plain_env 8820 10000 0 [] None 0 0 0 0 0)
       ''hug_risk_ratio'' \<noteq> Some (8820 / 10000)
   \<and> rc_calculate_risk_features plain_env 100 (- 100) 0 no_building_info no_ocr_features
       ''hug_risk_ratio'' = Some 0
   \<and> rc_calculate_risk_features plain_env 100 (- 100) 0 no_building_info no_ocr_features
       ''hug_risk_ratio'' \<noteq> Some (100 / (- 100))"
  by (simp add: fs_hug rc_hug)

text \<open>
  C4 (amended). Serving calculator: for an assessed price above 0 the ratio is the deposit
  divided by (assessed price times 1.26 divided by 10000); for an assessed price of 0 or
  less and a market price above 0 it is the deposit divided by the market price; when
  neither is above 0 it is 0. Training calculator, which takes no assessed price: for a
  market price above 0 the ratio is the deposit divided by (market price times 0.7 times
  1.26).
\<close>

theorem C4_hug_risk_ratio_amended:
  "(0 < public_price \<longrightarrow>
      rc_calculate_risk_features e deposit market_price public_price bi ocr
        ''hug_risk_ratio'' = Some (deposit / (public_price * 1.26 / 10000)))
   \<and> (public_price \<le> 0 \<and> 0 < market_price \<longrightarrow>
        rc_calculate_risk_features e deposit market_price public_price bi ocr
          ''hug_risk_ratio'' = Some (deposit / market_price))
   \<and> (public_price \<le> 0 \<and> market_price \<le> 0 \<longrightarrow>
        rc_calculate_risk_features e deposit market_price public_price bi ocr
          ''hug_risk_ratio'' = Some 0)
   \<and> (0 < market_price \<longrightarrow>
        returned (fs_calculate_risk_features e deposit market_price real_debt main_use
                    usage_approval_date is_illegal is_trust_owner short_term_weight
                    parking_count household_count)
          ''hug_risk_ratio'' = Some (deposit / (market_price * 0.7 * 1.26)))"
  by (simp add: rc_hug fs_hug)

theorem C4_hug_risk_ratio_amended_witness:
  "(0::real) < 200000000
   \<and> rc_calculate_risk_features plain_env 10000 30000 200000000 no_building_info
       no_ocr_features ''hug_risk_ratio'' = Some (10000 / 25200)
   \<and> (0::real) \<le> 0 \<and> (0::real) < 30000
   \<and> rc_calculate_risk_features plain_env 10000 30000 0 no_building_info
       no_ocr_features ''hug_risk_ratio'' = Some (10000 / 30000)
   \<and> rc_calculate_risk_features plain_env 10000 0 0 no_building_info
       no_ocr_features ''hug_risk_ratio'' = Some 0
   \<and> returned (fs_calculate_risk_features plain_env 10000 30000 0 [] None 0 0 0 0 0)
       ''hug_risk_ratio'' = Some (10000 / 26460)"
  using
    C4_hug_risk_ratio_amended [of 200000000 plain_env 10000 30000 no_building_info
      no_ocr_features 0 "[]" None 0 0 0 0 0]
    C4_hug_risk_ratio_amended [of 0 plain_env 10000 30000 no_building_info
      no_ocr_features 0 "[]" None 0 0 0 0 0]
    C4_hug_risk_ratio_amended [of 0 plain_env 10000 0 no_building_info
      no_ocr_features 0 "[]" None 0 0 0 0 0]
  by simp

text \<open>
  C5. With no classifier, the predicted probability is the maximum over the triggered
  rules (0.8 or 0.5 by the jeonse ratio, 0.9 or 0.7 by the total risk ratio, 0.6 for a
  trust with a short-term weight above 0) and 0.0 when none triggers. For deposit 24000
  and market price 30000 with no debt and no flags, the serving calculator's features get
  a probability of at least 0.8 and the level RISKY.
\<close>

theorem C5_fallback_is_max_of_triggered_rules:
  "predict_with_model None f = spec_fallback_probability f
   \<and> predict_with_model None
        (rc_calculate_risk_features e 24000 30000 0 no_building_info no_ocr_features)
       \<ge> 0.8
   \<and> determine_risk_level (predict_with_model None
        (rc_calculate_risk_features e 24000 30000 0 no_building_info no_ocr_features))
       = ''RISKY''"
  by (simp add: predict_with_model_def rule_based_is_max [symmetric] scenario_a
        determine_risk_level_def)

text \<open>
  C6 (as stated, refuted). The claim says that every call with a market price of 0 or less
  continues with 1.25 times the deposit as the price, so that the jeonse ratio is 0.8. The
  serving calculator does not substitute: for deposit 1000 and market price 0 its jeonse
  ratio is 0. The training calculator substitutes, and for deposit 0 the substituted price
  is 0 and the division raises.
\<close>

theorem C6_counterexample:
  "rc_calculate_risk_features plain_env 1000 0 0 no_building_info no_ocr_features
     ''jeonse_ratio'' = Some 0
   \<and> rc_calculate_risk_features plain_env 1000 0 0 no_building_info no_ocr_features
       ''jeonse_ratio'' \<noteq> Some 0.8
   \<and> fs_calculate_risk_features plain_env 0 0 0 [] None 0 0 0 0 0
       = Inl ZeroDivisionError"
  by (simp add: rc_jeonse fs_raises)

text \<open>
  C6 (amended). Training calculator: for a market price of 0 or less and a deposit other
  than 0, the call returns what it returns for the market price 1.25 times the deposit;
  its jeonse ratio is 0.8 and its total risk ratio is (deposit + debt) divided by
  (1.25 times the deposit). Serving calculator: for a market price of 0 or less there is
  no substitution, and the jeonse ratio and the total risk ratio are 0.
\<close>

theorem C6_market_price_substitution_amended:
  "(market_price \<le> 0 \<and> deposit \<noteq> 0 \<longrightarrow>
      fs_calculate_risk_features e deposit market_price real_debt main_use
        usage_approval_date is_illegal is_trust_owner short_term_weight
        parking_count household_count
      = fs_calculate_risk_features e deposit (deposit * 1.25) real_debt main_use
          usage_approval_date is_illegal is_trust_owner short_term_weight
          parking_count household_count
      \<and> returned (fs_calculate_risk_features e deposit market_price real_debt main_use
                    usage_approval_date is_illegal is_trust_owner short_term_weight
                    parking_count household_count) ''jeonse_ratio'' = Some 0.8
      \<and> returned (fs_calculate_risk_features e deposit market_price real_debt main_use
                    usage_approval_date is_illegal is_trust_owner short_term_weight
                    parking_count household_count) ''total_risk_ratio''
          = Some ((deposit + real_debt) / (deposit * 1.25)))
   \<and> (market_price \<le> 0 \<longrightarrow>
        rc_calculate_risk_features e deposit market_price public_price bi ocr
          ''jeonse_ratio'' = Some 0
        \<and> rc_calculate_risk_features e deposit market_price public_price bi ocr
            ''total_risk_ratio'' = Some 0)"
  using fs_subst [of market_price e deposit real_debt main_use usage_approval_date
      is_illegal is_trust_owner short_term_weight parking_count household_count]
    fs_subst_ratio [of market_price deposit e real_debt main_use usage_approval_date
      is_illegal is_trust_owner short_term_weight parking_count household_count]
  by (simp add: rc_jeonse rc_total)

theorem C6_market_price_substitution_amended_witness:
  "(0::real) \<le> 0 \<and> (24000::real) \<noteq> 0
   \<and> fs_calculate_risk_features plain_env 24000 0 0 [] None 0 0 0 0 0
       = fs_calculate_risk_features plain_env 24000 (24000 * 1.25) 0 [] None 0 0 0 0 0
   \<and> returned (fs_calculate_risk_features plain_env 24000 0 0 [] None 0 0 0 0 0)
       ''jeonse_ratio'' = Some 0.8
   \<and> returned (fs_calculate_risk_features plain_env 24000 0 0 [] None 0 0 0 0 0)
       ''total_risk_ratio'' = Some ((24000 + 0) / (24000 * 1.25))
   \<and> rc_calculate_risk_features plain_env 24000 0 0 no_building_info no_ocr_features
       ''jeonse_ratio'' = Some 0"
proof -
  have h: "(0::real) \<le> 0 \<and> (24000::real) \<noteq> 0"
    by simp
  with C6_market_price_substitution_amended [of 0 24000 plain_env 0 "[]" None 0 0 0 0 0
      0 no_building_info no_ocr_features]
  show ?thesis by blast
qed

text \<open>
  C7 (the claim fails on the training calculator). With the usage-approval date absent,
  as \<^verbatim>\<open>None\<close> or as the empty string, the training calculator returns the building
  age 0, the value the variable is initialised with, and not the default 10; the serving
  calculator, whose variable is initialised with 10, returns 10 when no date is given.
\<close>

theorem C7_absent_date_gives_age_zero_in_training_calculator:
  "returned (fs_calculate_risk_features e 10000 30000 0 kw_villa None 0 0 0 0 0)
     ''building_age'' = Some 0
   \<and> returned (fs_calculate_risk_features e 10000 30000 0 kw_villa (Some []) 0 0 0 0 0)
       ''building_age'' = Some 0
   \<and> rc_calculate_risk_features e 10000 30000 0 villa_building no_ocr_features
       ''building_age'' = Some 10"
  by (simp add: returned_def fs_calculate_risk_features_def py_div_def Let_def map_add_def
        fs_type_dict_other fs_building_age_def rc_calculate_risk_features_def
        rc_type_dict_other rc_building_age_def villa_building_def no_building_info_def
        no_ocr_features_def str_or_def str_truthy_def entry_get_def)

text \<open>
  C8. Whatever the weight of the building type, the short-term weight and the trust flag
  are, also when their sum exceeds 1, the \<^verbatim>\<open>estimated_loan_ratio\<close> of the features
  that either calculator returns lies between 0 and 1.
\<close>

theorem C8_estimated_loan_ratio_in_unit_interval:
  "(\<exists>v. rc_calculate_risk_features e deposit market_price public_price bi ocr
           ''estimated_loan_ratio'' = Some v \<and> 0 \<le> v \<and> v \<le> 1)
   \<and> (\<forall>f. fs_calculate_risk_features e deposit market_price real_debt main_use
              usage_approval_date is_illegal is_trust_owner short_term_weight
              parking_count household_count = Inr f
          \<longrightarrow> (\<exists>v. f ''estimated_loan_ratio'' = Some v \<and> 0 \<le> v \<and> v \<le> 1))"
  using rc_loan fs_loan by blast

theorem C8_estimated_loan_ratio_in_unit_interval_witness:
  "fs_type_w kw_neighbourhood + 0.3 + 0.5 > 1
   \<and> (\<exists>f v. fs_calculate_risk_features plain_env 24000 30000 0 kw_neighbourhood None
                0 1 0.3 0 0 = Inr f
          \<and> f ''estimated_loan_ratio'' = Some v \<and> 0 \<le> v \<and> v \<le> 1)"
proof -
  have sum: "fs_type_w kw_neighbourhood + 0.3 + 0.5 > 1"
    by (simp add: fs_type_w_def kw_defs str_in_simps)
  obtain f where f:
    "fs_calculate_risk_features plain_env 24000 30000 0 kw_neighbourhood None 0 1 0.3 0 0
     = Inr f"
    using fs_returns [of 30000 24000 plain_env 0 kw_neighbourhood None 0 1 "0.3" 0 0]
    by auto
  then have "\<exists>v. f ''estimated_loan_ratio'' = Some v \<and> 0 \<le> v \<and> v \<le> 1"
    using C8_estimated_loan_ratio_in_unit_interval [of plain_env 24000 30000 0
        no_building_info no_ocr_features 0 kw_neighbourhood None 0 1 "0.3" 0 0]
    by blast
  with sum f show ?thesis by blast
qed

text \<open>
  C9. The analyzer returns a list that is not empty, for every feature dictionary and
  eligibility flag. When nothing triggers (insurance eligible, jeonse ratio at most 0.7,
  no senior debt, no illegal-building flag, no trust, short-term weight 0, age at most
  30) the list is the single factor of type NONE and severity LOW.
\<close>

theorem C9_factor_list_never_empty:
  "(\<exists>rs. analyze_risk_factors f is_hug_safe = Inr rs \<and> rs \<noteq> [])
   \<and> (is_hug_safe \<and> features_get f ''jeonse_ratio'' 0 \<le> 0.7
        \<and> features_get f ''real_debt'' 0 \<le> 0
        \<and> \<not> truthy (features_get f ''is_illegal'' 0)
        \<and> \<not> truthy (features_get f ''is_trust_owner'' 0)
        \<and> features_get f ''short_term_weight'' 0 = 0
        \<and> features_get f ''building_age'' 0 \<le> 30
      \<longrightarrow> analyze_risk_factors f is_hug_safe = Inr [no_risk_found]
          \<and> factor_type no_risk_found = ''NONE'' \<and> severity no_risk_found = ''LOW'')"
  using analyze_returns [of f is_hug_safe] analyze_quiet [of is_hug_safe f]
  by (simp add: no_risk_found_def)

theorem C9_factor_list_never_empty_witness:
  "features_get quiet_features ''jeonse_ratio'' 0 \<le> 0.7
   \<and> features_get quiet_features ''real_debt'' 0 \<le> 0
   \<and> \<not> truthy (features_get quiet_features ''is_illegal'' 0)
   \<and> \<not> truthy (features_get quiet_features ''is_trust_owner'' 0)
   \<and> features_get quiet_features ''short_term_weight'' 0 = 0
   \<and> features_get quiet_features ''building_age'' 0 \<le> 30
   \<and> analyze_risk_factors quiet_features True = Inr [no_risk_found]"
proof -
  have h: "features_get quiet_features ''jeonse_ratio'' 0 \<le> 0.7
     \<and> features_get quiet_features ''real_debt'' 0 \<le> 0
     \<and> \<not> truthy (features_get quiet_features ''is_illegal'' 0)
     \<and> \<not> truthy (features_get quiet_features ''is_trust_owner'' 0)
     \<and> features_get quiet_features ''short_term_weight'' 0 = 0
     \<and> features_get quiet_features ''building_age'' 0 \<le> 30"
    by (simp add: quiet_features_def features_get_def truthy_def)
  with C9_factor_list_never_empty [of quiet_features True] show ?thesis by simp
qed

text \<open>
  C10. The eligibility check answers eligible exactly when the assessed price is positive
  and the deposit (in 10000 won) is at most assessed price times 1.26 divided by 10000;
  for an assessed price of zero or less it answers not eligible with limit 0; a deposit of
  10000 against an assessed price of 20000, both in units of 10000 won, is eligible.
\<close>

theorem C10_hug_eligibility:
  "(fst (calculate_hug_eligibility public_price deposit_manwon) \<longleftrightarrow>
      0 < public_price \<and> deposit_manwon \<le> public_price * 1.26 / 10000)
   \<and> (public_price \<le> 0 \<longrightarrow>
        fst (calculate_hug_eligibility public_price deposit_manwon) = False
        \<and> fst (snd (calculate_hug_eligibility public_price deposit_manwon)) = 0)
   \<and> fst (calculate_hug_eligibility (20000 * 10000) 10000) = True"
  by (simp add: calculate_hug_eligibility_def Let_def)

theorem C10_hug_eligibility_witness:
  "fst (calculate_hug_eligibility 200000000 10000)
   \<and> (0::real) < 200000000 \<and> (10000::real) \<le> 200000000 * 1.26 / 10000
   \<and> (0::real) \<le> 0
   \<and> fst (calculate_hug_eligibility 0 10000) = False
   \<and> fst (snd (calculate_hug_eligibility 0 10000)) = 0"
  using C10_hug_eligibility [of 200000000 10000] C10_hug_eligibility [of 0 10000]
  by simp

end
